theory Spec2Isabelle
  imports Complex_Main "HOL-Library.Char_ord" "HOL-Library.List_Lexorder"
begin

section \<open>The train-delay training notebook\<close>

text \<open>
  A shallow embedding of \<^verbatim>\<open>notebooks/03_train_model.ipynb\<close>. Each code cell of the
  notebook becomes a function of the values it reads; the global variables it assigns are
  its results.

  Conventions of the embedding:
  \<^item> a Python float is a \<^typ>\<open>real\<close>; a float column that may hold NaN is a
    \<^typ>\<open>real option\<close> with \<open>None\<close> for NaN. Rounding is not modelled;
  \<^item> a Python \<^verbatim>\<open>str\<close> is a \<^typ>\<open>string\<close> of its UTF-8 bytes, ordered
    lexicographically by byte, which is the order of Python's code points;
  \<^item> an exception is the \<open>Inl\<close> of a sum;
  \<^item> the fitted regressors and the scikit-learn metrics are opaque: they are parameters
    (a type \<open>'m\<close> of models and the functions of the record \<open>lib\<close>);
  \<^item> the pandas operations the notebook calls (\<^verbatim>\<open>groupby\<close>, \<^verbatim>\<open>agg\<close>,
    \<^verbatim>\<open>merge\<close>, \<^verbatim>\<open>fillna\<close>, selecting and assigning columns) and scikit-learn's
    \<^verbatim>\<open>LabelEncoder\<close> are library code: they are written out from their documented
    behaviour, on the values the notebook gives them.
\<close>

subsection \<open>Values\<close>

text \<open>
  What a call can raise. \<open>LibraryError\<close> stands for any exception of an opaque library
  call; \<open>NotModelled\<close> marks an operation whose result the embedding does not compute.
\<close>

datatype py_error =
    KeyError string
  | ValueError
  | IndexError
  | LibraryError
  | NotModelled

text \<open>A value held in a data frame or in a dictionary of features.\<close>

datatype cell = IntV int | FloatV real | NaNV | BoolV bool | StrV string

type_synonym frame = "(string \<times> cell list) list"

text \<open>What a regressor's \<^verbatim>\<open>predict\<close> receives: a data frame or a two-dimensional array.\<close>

datatype matrix = DataFrame frame | Array "cell list list"

text \<open>
  The library functions the notebook calls on opaque values: \<^verbatim>\<open>model.predict\<close> and the
  three metrics of \<^verbatim>\<open>sklearn.metrics\<close>. Each may raise.
\<close>

record 'm lib =
  predict :: "'m \<Rightarrow> matrix \<Rightarrow> py_error + real list"
  mean_squared_error :: "real list \<Rightarrow> real list \<Rightarrow> py_error + real"
  mean_absolute_error :: "real list \<Rightarrow> real list \<Rightarrow> py_error + real"
  r2_score :: "real list \<Rightarrow> real list \<Rightarrow> py_error + real"

subsection \<open>Model evaluation\<close>

text \<open>The dictionary returned by \<^verbatim>\<open>evaluate_model\<close>.\<close>

record results =
  predictions :: "real list"
  rmse :: real
  mae :: real
  r2 :: real

text \<open>
  \<^verbatim>\<open>evaluate_model(model, X_test, y_test, model_name)\<close>. The lines it prints (the
  formatted metrics) are not modelled.
\<close>

definition evaluate_model ::
  "'m lib \<Rightarrow> 'm \<Rightarrow> matrix \<Rightarrow> real list \<Rightarrow> string \<Rightarrow> py_error + results" where
  "evaluate_model sk model X_test y_test model_name =
     (case predict sk model X_test of
        Inl e \<Rightarrow> Inl e
      | Inr y_pred0 \<Rightarrow>
          let y_pred = map (\<lambda>p. max p 0) y_pred0 in
          (case mean_squared_error sk y_test y_pred of
             Inl e \<Rightarrow> Inl e
           | Inr mse \<Rightarrow>
               (case mean_absolute_error sk y_test y_pred of
                  Inl e \<Rightarrow> Inl e
                | Inr mae_v \<Rightarrow>
                    (case r2_score sk y_test y_pred of
                       Inl e \<Rightarrow> Inl e
                     | Inr r2_v \<Rightarrow>
                         Inr \<lparr>predictions = y_pred, rmse = sqrt mse,
                              mae = mae_v, r2 = r2_v\<rparr>))))"

subsection \<open>Model selection\<close>

text \<open>
  The cell "Select best model based on RMSE": the triple
  \<^verbatim>\<open>(best_model, best_model_name, best_results)\<close> it assigns.
\<close>

definition select_best ::
  "'m \<Rightarrow> 'm \<Rightarrow> results \<Rightarrow> results \<Rightarrow> 'm \<times> string \<times> results" where
  "select_best xgb_model rf_model xgb_results rf_results =
     (if rmse xgb_results < rmse rf_results
      then (xgb_model, ''XGBoost'', xgb_results)
      else (rf_model, ''Random Forest'', rf_results))"

subsection \<open>Feature engineering\<close>

text \<open>
  One row of the query result \<^verbatim>\<open>df\<close>. The query joins on both station codes and
  keeps only rows with \<^verbatim>\<open>delay IS NOT NULL\<close>; every column is taken to be non-null.
  (The exploration cell also stores a \<^verbatim>\<open>route\<close> column in \<^verbatim>\<open>df\<close>;
  \<^verbatim>\<open>create_features\<close> overwrites it before reading it, so it is left out.)
\<close>

record departure =
  train_signature_code :: string
  from_station :: string
  to_station :: string
  hour :: int
  delay :: real
  from_lat :: real
  from_long :: real
  to_lat :: real
  to_long :: real

text \<open>One row of \<^verbatim>\<open>df_features\<close>, the frame \<^verbatim>\<open>create_features\<close> returns.\<close>

record feature_row = departure +
  route :: string
  hour_sin :: real
  hour_cos :: real
  route_distance :: real
  route_avg_delay :: "real option"
  route_std_delay :: real
  route_count :: "nat option"
  is_rush_hour :: bool
  is_night :: bool

text \<open>
  pandas \<^verbatim>\<open>groupby(key)[val]\<close>: the groups in the order of their sorted keys, each
  with its values in row order. Rows are put into their groups one after the other.
\<close>

fun group_insert :: "'k \<Rightarrow> 'v \<Rightarrow> ('k \<times> 'v list) list \<Rightarrow> ('k \<times> 'v list) list" where
  "group_insert k v [] = [(k, [v])]"
| "group_insert k v ((k', vs) # gs) =
     (if k' = k then (k', vs @ [v]) # gs else (k', vs) # group_insert k v gs)"

definition groupby ::
  "('a \<Rightarrow> 'k::linorder) \<Rightarrow> ('a \<Rightarrow> 'v) \<Rightarrow> 'a list \<Rightarrow> ('k \<times> 'v list) list" where
  "groupby key val rows =
     sort_key fst (fold (\<lambda>r. group_insert (key r) (val r)) rows [])"

text \<open>
  The aggregations \<^verbatim>\<open>'mean'\<close>, \<^verbatim>\<open>'std'\<close> (sample standard deviation, one
  degree of freedom removed) and \<^verbatim>\<open>'count'\<close>. The mean of no value and the standard
  deviation of fewer than two values are NaN.
\<close>

definition mean :: "real list \<Rightarrow> real option" where
  "mean vs = (if vs = [] then None else Some (sum_list vs / real (length vs)))"

definition std :: "real list \<Rightarrow> real option" where
  "std vs =
     (if length vs < 2 then None
      else let m = sum_list vs / real (length vs)
           in Some (sqrt (sum_list (map (\<lambda>v. (v - m)\<^sup>2) vs) / real (length vs - 1))))"

text \<open>One row of \<^verbatim>\<open>route_stats\<close>, after \<^verbatim>\<open>reset_index\<close> and the renaming.\<close>

record route_stat =
  stat_route :: string
  stat_avg_delay :: "real option"
  stat_std_delay :: "real option"
  stat_count :: nat

definition agg_mean_std_count :: "(string \<times> real list) list \<Rightarrow> route_stat list" where
  "agg_mean_std_count groups =
     map (\<lambda>(k, vs). \<lparr>stat_route = k, stat_avg_delay = mean vs,
                       stat_std_delay = std vs, stat_count = length vs\<rparr>) groups"

text \<open>
  pandas \<^verbatim>\<open>left.merge(right, on=key, how='left')\<close>: every left row, in order, with
  each right row of the same key, or with no right row (NaN in its columns).
\<close>

definition merge_left ::
  "('l \<Rightarrow> 'k) \<Rightarrow> ('r \<Rightarrow> 'k) \<Rightarrow> 'l list \<Rightarrow> 'r list \<Rightarrow> ('l \<times> 'r option) list" where
  "merge_left lkey rkey left right =
     concat (map (\<lambda>l. case filter (\<lambda>r. rkey r = lkey l) right of
                          [] \<Rightarrow> [(l, None)]
                        | ms \<Rightarrow> map (\<lambda>r. (l, Some r)) ms) left)"

text \<open>\<^verbatim>\<open>fillna(0)\<close> on one value.\<close>

definition fillna0 :: "real option \<Rightarrow> real" where
  "fillna0 v = (case v of None \<Rightarrow> 0 | Some x \<Rightarrow> x)"

text \<open>The \<^verbatim>\<open>route\<close> column: \<^verbatim>\<open>df['from_station'] + '_' + df['to_station']\<close>.\<close>

definition route_key :: "departure \<Rightarrow> string" where
  "route_key d = from_station d @ ''_'' @ to_station d"

text \<open>
  The columns of one merged row: a row \<open>d\<close> of \<^verbatim>\<open>df\<close> with the row \<open>s\<close> of
  \<^verbatim>\<open>route_stats\<close> the merge joined to it (\<open>None\<close>: no such row, NaN in its three
  columns), after \<^verbatim>\<open>fillna(0)\<close> on \<^verbatim>\<open>route_std_delay\<close>.
\<close>

definition feature_row_of :: "departure \<Rightarrow> route_stat option \<Rightarrow> feature_row" where
  "feature_row_of d s =
     \<lparr>train_signature_code = train_signature_code d,
      from_station = from_station d,
      to_station = to_station d,
      hour = hour d,
      delay = delay d,
      from_lat = from_lat d,
      from_long = from_long d,
      to_lat = to_lat d,
      to_long = to_long d,
      route = route_key d,
      hour_sin = sin (2 * pi * real_of_int (hour d) / 24),
      hour_cos = cos (2 * pi * real_of_int (hour d) / 24),
      route_distance =
        sqrt ((to_lat d - from_lat d)\<^sup>2 + (to_long d - from_long d)\<^sup>2) * 111,
      route_avg_delay = Option.bind s stat_avg_delay,
      route_std_delay = fillna0 (Option.bind s stat_std_delay),
      route_count = map_option stat_count s,
      is_rush_hour = ((hour d \<ge> 7 \<and> hour d \<le> 9) \<or> (hour d \<ge> 17 \<and> hour d \<le> 19)),
      is_night = (hour d \<le> 6 \<or> hour d \<ge> 22)\<rparr>"

text \<open>\<^verbatim>\<open>create_features(df)\<close>.\<close>

definition create_features :: "departure list \<Rightarrow> feature_row list" where
  "create_features df =
     (let route_stats = agg_mean_std_count (groupby route_key delay df);
          merged = merge_left route_key stat_route df route_stats
      in map (\<lambda>(d, s). feature_row_of d s) merged)"

text \<open>
  The delays of the rows of \<open>df\<close> whose route is \<open>k\<close>, in row order: what the
  specification aggregates per route.
\<close>

definition route_delays :: "departure list \<Rightarrow> string \<Rightarrow> real list" where
  "route_delays df k = map delay (filter (\<lambda>d. route_key d = k) df)"

subsection \<open>The label encoder\<close>

text \<open>
  scikit-learn's \<^verbatim>\<open>LabelEncoder\<close> on strings, from its documented behaviour:
  \<^verbatim>\<open>classes_\<close> holds the distinct labels in sorted order
  (\<^verbatim>\<open>sorted(set(values))\<close>), and a label is encoded through the table
  \<^verbatim>\<open>{val: i for i, val in enumerate(classes_)}\<close>; a label that is not in the table
  raises \<^verbatim>\<open>ValueError\<close>.
\<close>

record label_encoder =
  classes :: "string list"

definition code_table :: "string list \<Rightarrow> (string \<rightharpoonup> nat)" where
  "code_table uniques = fold (\<lambda>(i, v) t. t(v \<mapsto> i)) (enumerate 0 uniques) Map.empty"

fun lookup_all :: "(string \<rightharpoonup> nat) \<Rightarrow> string list \<Rightarrow> py_error + nat list" where
  "lookup_all t [] = Inr []"
| "lookup_all t (v # vs) =
     (case t v of
        None \<Rightarrow> Inl ValueError
      | Some i \<Rightarrow> (case lookup_all t vs of Inl e \<Rightarrow> Inl e | Inr cs \<Rightarrow> Inr (i # cs)))"

definition map_to_integer :: "string list \<Rightarrow> string list \<Rightarrow> py_error + nat list" where
  "map_to_integer values uniques = lookup_all (code_table uniques) values"

definition fit_transform :: "string list \<Rightarrow> py_error + label_encoder \<times> nat list" where
  "fit_transform y =
     (let uniques = sorted_list_of_set (set y) in
      case map_to_integer y uniques of
        Inl e \<Rightarrow> Inl e
      | Inr codes \<Rightarrow> Inr (\<lparr>classes = uniques\<rparr>, codes))"

definition transform :: "label_encoder \<Rightarrow> string list \<Rightarrow> py_error + nat list" where
  "transform le y = map_to_integer y (classes le)"

subsection \<open>The feature matrix and the encoders\<close>

text \<open>The columns of \<^verbatim>\<open>df_features\<close> and the cells of one of its rows.\<close>

definition feature_row_columns :: "string list" where
  "feature_row_columns =
     [''train_signature_code'', ''from_station'', ''to_station'', ''hour'', ''delay'',
      ''from_lat'', ''from_long'', ''to_lat'', ''to_long'', ''route'',
      ''hour_sin'', ''hour_cos'', ''route_distance'',
      ''route_avg_delay'', ''route_std_delay'', ''route_count'',
      ''is_rush_hour'', ''is_night'']"

definition row_cells :: "feature_row \<Rightarrow> (string \<times> cell) list" where
  "row_cells r =
     zip feature_row_columns
       [StrV (train_signature_code r), StrV (from_station r), StrV (to_station r),
        IntV (hour r), FloatV (delay r),
        FloatV (from_lat r), FloatV (from_long r), FloatV (to_lat r), FloatV (to_long r),
        StrV (route r),
        FloatV (hour_sin r), FloatV (hour_cos r), FloatV (route_distance r),
        (case route_avg_delay r of None \<Rightarrow> NaNV | Some v \<Rightarrow> FloatV v),
        FloatV (route_std_delay r),
        (case route_count r of None \<Rightarrow> NaNV | Some n \<Rightarrow> IntV (int n)),
        BoolV (is_rush_hour r), BoolV (is_night r)]"

definition cell_at :: "feature_row \<Rightarrow> string \<Rightarrow> cell" where
  "cell_at r c = (case map_of (row_cells r) c of Some v \<Rightarrow> v | None \<Rightarrow> NaNV)"

text \<open>
  \<^verbatim>\<open>df[cols]\<close> with a list of column names: the named columns in the order of the
  list; a name that is no column raises \<^verbatim>\<open>KeyError\<close>.
\<close>

definition getitem_columns :: "feature_row list \<Rightarrow> string list \<Rightarrow> py_error + frame" where
  "getitem_columns df cols =
     (case filter (\<lambda>c. c \<notin> set feature_row_columns) cols of
        [] \<Rightarrow> Inr (map (\<lambda>c. (c, map (\<lambda>r. cell_at r c) df)) cols)
      | c # _ \<Rightarrow> Inl (KeyError c))"

text \<open>\<^verbatim>\<open>X[col]\<close>, \<^verbatim>\<open>X[col] = values\<close> and \<^verbatim>\<open>X.columns\<close> on a frame.\<close>

definition frame_column :: "frame \<Rightarrow> string \<Rightarrow> py_error + cell list" where
  "frame_column X col = (case map_of X col of None \<Rightarrow> Inl (KeyError col) | Some vs \<Rightarrow> Inr vs)"

definition setitem_column :: "frame \<Rightarrow> string \<Rightarrow> cell list \<Rightarrow> py_error + frame" where
  "setitem_column X col vs =
     (if X \<noteq> [] \<and> length vs \<noteq> length (snd (hd X)) then Inl ValueError
      else if col \<in> set (map fst X)
        then Inr (map (\<lambda>(n, old). if n = col then (n, vs) else (n, old)) X)
        else Inr (X @ [(col, vs)]))"

definition columns :: "frame \<Rightarrow> string list" where
  "columns X = map fst X"

text \<open>
  \<^verbatim>\<open>astype(str)\<close> on a column. A string is unchanged; the formatting of numbers as
  text is not modelled (the notebook applies it to the \<^verbatim>\<open>route\<close> column only).
\<close>

fun astype_str :: "cell list \<Rightarrow> py_error + string list" where
  "astype_str [] = Inr []"
| "astype_str (StrV s # cs) =
     (case astype_str cs of Inl e \<Rightarrow> Inl e | Inr ss \<Rightarrow> Inr (s # ss))"
| "astype_str (_ # cs) = Inl NotModelled"

definition feature_columns :: "string list" where
  "feature_columns =
     [''hour'', ''hour_sin'', ''hour_cos'', ''route_distance'',
      ''route_avg_delay'', ''route_std_delay'', ''route_count'',
      ''is_rush_hour'', ''is_night'', ''route'']"

definition categorical_columns :: "string list" where
  "categorical_columns = [''route'']"

text \<open>The loop \<^verbatim>\<open>for col in categorical_columns\<close>, on the pair of \<^verbatim>\<open>X\<close> and
  \<^verbatim>\<open>label_encoders\<close> it updates.\<close>

fun encode_columns ::
  "string list \<Rightarrow> frame \<times> (string \<rightharpoonup> label_encoder)
     \<Rightarrow> py_error + frame \<times> (string \<rightharpoonup> label_encoder)" where
  "encode_columns [] st = Inr st"
| "encode_columns (col # cols) (X, label_encoders) =
     (case frame_column X col of
        Inl e \<Rightarrow> Inl e
      | Inr vs \<Rightarrow>
          (case astype_str vs of
             Inl e \<Rightarrow> Inl e
           | Inr ss \<Rightarrow>
               (case fit_transform ss of
                  Inl e \<Rightarrow> Inl e
                | Inr (le, codes) \<Rightarrow>
                    (case setitem_column X col (map (\<lambda>c. IntV (int c)) codes) of
                       Inl e \<Rightarrow> Inl e
                     | Inr X' \<Rightarrow>
                         encode_columns cols
                           (X', label_encoders(col @ ''_encoder'' \<mapsto> le))))))"

text \<open>
  The cell "Prepare features for training": the values of \<^verbatim>\<open>X\<close>, \<^verbatim>\<open>y\<close> and
  \<^verbatim>\<open>label_encoders\<close> it leaves.
\<close>

definition prepare_features ::
  "feature_row list \<Rightarrow> py_error + frame \<times> real list \<times> (string \<rightharpoonup> label_encoder)" where
  "prepare_features df_features =
     (case getitem_columns df_features feature_columns of
        Inl e \<Rightarrow> Inl e
      | Inr X \<Rightarrow>
          let y = map delay df_features in
          (case encode_columns categorical_columns (X, Map.empty) of
             Inl e \<Rightarrow> Inl e
           | Inr (X', label_encoders) \<Rightarrow> Inr (X', y, label_encoders)))"

subsection \<open>The metadata record\<close>

record performance =
  perf_rmse :: real
  perf_mae :: real
  perf_r2 :: real

record model_info =
  feature_names :: "string list"
  model_type :: string
  performance :: performance

text \<open>
  The dictionary \<^verbatim>\<open>feature_info\<close> that is written to \<^verbatim>\<open>model_info.json\<close>, from
  \<^verbatim>\<open>feature_names = X.columns\<close> and the selected model.
\<close>

definition feature_info :: "frame \<Rightarrow> string \<Rightarrow> results \<Rightarrow> model_info" where
  "feature_info X best_model_name best_results =
     \<lparr>feature_names = columns X,
      model_type = best_model_name,
      performance = \<lparr>perf_rmse = rmse best_results,
                     perf_mae = mae best_results,
                     perf_r2 = r2 best_results\<rparr>\<rparr>"

subsection \<open>Sample predictions\<close>

text \<open>The line printed for a route without data; the two symbols are UTF-8.\<close>

definition cross_mark :: string where
  "cross_mark = [CHR 0xE2, CHR 0x9D, CHR 0x8C]"

definition rightwards_arrow :: string where
  "rightwards_arrow = [CHR 0xE2, CHR 0x86, CHR 0x92]"

definition no_data_message :: "string \<Rightarrow> string \<Rightarrow> string" where
  "no_data_message from_st to_st =
     cross_mark @ '' No data found for route '' @ from_st @ '' '' @ rightwards_arrow
       @ '' '' @ to_st"

text \<open>\<^verbatim>\<open>[pred_features[col] for col in feature_names]\<close>.\<close>

fun lookup_features :: "(string \<times> cell) list \<Rightarrow> string list \<Rightarrow> py_error + cell list" where
  "lookup_features d [] = Inr []"
| "lookup_features d (col # cols) =
     (case map_of d col of
        None \<Rightarrow> Inl (KeyError col)
      | Some v \<Rightarrow> (case lookup_features d cols of Inl e \<Rightarrow> Inl e | Inr vs \<Rightarrow> Inr (v # vs)))"

text \<open>
  \<^verbatim>\<open>make_sample_prediction(from_station, to_station, hour)\<close>, with the globals it
  reads as arguments. The result is the lines printed and the value returned
  (\<open>None\<close> is Python's \<^verbatim>\<open>None\<close>) or the exception raised.
\<close>

definition make_sample_prediction ::
  "'m lib \<Rightarrow> feature_row list \<Rightarrow> (string \<rightharpoonup> label_encoder) \<Rightarrow> string list \<Rightarrow> 'm
     \<Rightarrow> string \<Rightarrow> string \<Rightarrow> int \<Rightarrow> string list \<times> (py_error + real option)" where
  "make_sample_prediction sk df_features label_encoders feat_names best_model
       from_st to_st hr =
     (let sample_route =
            filter (\<lambda>r. from_station r = from_st \<and> to_station r = to_st) df_features
      in case sample_route of
           [] \<Rightarrow> ([no_data_message from_st to_st], Inr None)
         | route_data # _ \<Rightarrow>
             ([],
              case label_encoders ''route_encoder'' of
                None \<Rightarrow> Inl (KeyError ''route_encoder'')
              | Some le \<Rightarrow>
                  (case transform le [route route_data] of
                     Inl e \<Rightarrow> Inl e
                   | Inr [] \<Rightarrow> Inl IndexError
                   | Inr (code # _) \<Rightarrow>
                       let pred_features =
                             [(''hour'', IntV hr),
                              (''hour_sin'', FloatV (sin (2 * pi * real_of_int hr / 24))),
                              (''hour_cos'', FloatV (cos (2 * pi * real_of_int hr / 24))),
                              (''route_distance'', cell_at route_data ''route_distance''),
                              (''route_avg_delay'', cell_at route_data ''route_avg_delay''),
                              (''route_std_delay'', cell_at route_data ''route_std_delay''),
                              (''route_count'', cell_at route_data ''route_count''),
                              (''is_rush_hour'',
                                 BoolV ((7 \<le> hr \<and> hr \<le> 9) \<or> (17 \<le> hr \<and> hr \<le> 19))),
                              (''is_night'', BoolV (hr \<le> 6 \<or> hr \<ge> 22)),
                              (''route'', IntV (int code))]
                       in (case lookup_features pred_features feat_names of
                             Inl e \<Rightarrow> Inl e
                           | Inr x_row \<Rightarrow>
                               (case predict sk best_model (Array [x_row]) of
                                  Inl e \<Rightarrow> Inl e
                                | Inr [] \<Rightarrow> Inl IndexError
                                | Inr (prediction # _) \<Rightarrow>
                                    Inr (Some (if prediction > 0 then prediction else 0)))))))"

subsection \<open>Auxiliary notions and examples\<close>

text \<open>The position of the first \<open>v\<close> in \<open>xs\<close> (the length of \<open>xs\<close> when there is none).\<close>

definition index_in :: "'a list \<Rightarrow> 'a \<Rightarrow> nat" where
  "index_in xs v = length (takeWhile (\<lambda>x. x \<noteq> v) xs)"

text \<open>
  The departures of the scenario: three runs from A to B, two at 08:00 and one at 20:00,
  with delays 5, 7 and 3; and a route with a single run.
\<close>

definition scenario_departures :: "departure list" where
  "scenario_departures =
     [\<lparr>train_signature_code = ''T1'', from_station = ''A'', to_station = ''B'', hour = 8,
       delay = 5, from_lat = 0, from_long = 0, to_lat = 3, to_long = 4\<rparr>,
      \<lparr>train_signature_code = ''T2'', from_station = ''A'', to_station = ''B'', hour = 8,
       delay = 7, from_lat = 0, from_long = 0, to_lat = 3, to_long = 4\<rparr>,
      \<lparr>train_signature_code = ''T3'', from_station = ''A'', to_station = ''B'', hour = 20,
       delay = 3, from_lat = 0, from_long = 0, to_lat = 3, to_long = 4\<rparr>]"

definition single_departure :: "departure list" where
  "single_departure =
     [\<lparr>train_signature_code = ''T4'', from_station = ''C'', to_station = ''D'', hour = 23,
       delay = 4, from_lat = 1, from_long = 1, to_lat = 1, to_long = 2\<rparr>]"

text \<open>A sequence of route keys with a repetition, not in sorted order.\<close>

definition example_routes :: "string list" where
  "example_routes = [''B_C'', ''A_B'', ''B_C'', ''A_C'']"

text \<open>
  A stand-in for the libraries, for examples: a model is the list of the values it
  predicts, and the metrics are the textbook formulas.
\<close>

definition example_lib :: "real list lib" where
  "example_lib =
     \<lparr>predict = (\<lambda>m X. Inr m),
      mean_squared_error = (\<lambda>y p.
        if length y \<noteq> length p \<or> y = [] then Inl ValueError
        else Inr (sum_list (map2 (\<lambda>a b. (a - b)\<^sup>2) y p) / real (length y))),
      mean_absolute_error = (\<lambda>y p.
        if length y \<noteq> length p \<or> y = [] then Inl ValueError
        else Inr (sum_list (map2 (\<lambda>a b. \<bar>a - b\<bar>) y p) / real (length y))),
      r2_score = (\<lambda>y p.
        if length y \<noteq> length p \<or> y = [] then Inl ValueError
        else let ss_res = sum_list (map2 (\<lambda>a b. (a - b)\<^sup>2) y p);
                 ss_tot = sum_list (map (\<lambda>a. (a - sum_list y / real (length y))\<^sup>2) y)
             in Inr (if ss_tot = 0 then (if ss_res = 0 then 1 else 0)
                     else 1 - ss_res / ss_tot))\<rparr>"

text \<open>
  A second stand-in whose models predict row by row: \<open>example_model\<close> predicts the
  hour in the first column minus 15.
\<close>

definition example_model :: "cell list \<Rightarrow> real" where
  "example_model row = (case row of IntV h # _ \<Rightarrow> real_of_int h - 15 | _ \<Rightarrow> 0)"

definition rowwise_lib :: "(cell list \<Rightarrow> real) lib" where
  "rowwise_lib =
     \<lparr>predict = (\<lambda>m X. case X of
          Array rows \<Rightarrow> Inr (map m rows)
        | DataFrame f \<Rightarrow> Inr (map m (transpose (map snd f)))),
      mean_squared_error = mean_squared_error example_lib,
      mean_absolute_error = mean_absolute_error example_lib,
      r2_score = r2_score example_lib\<rparr>"

text \<open>Four departures on two routes: the single run from C to D, then the scenario.\<close>

definition mixed_departures :: "departure list" where
  "mixed_departures = single_departure @ scenario_departures"

section \<open>Properties\<close>

subsection \<open>Selector\<close>

text \<open>
  Claim C1, as the notebook has it. The selector takes XGBoost exactly when its RMSE is
  strictly lower than Random Forest's, and Random Forest otherwise; so the model with the
  strictly lower RMSE is selected whichever of the two it is, the selected results carry
  the smaller of the two RMSE values, and at equal RMSE the selector takes Random Forest,
  the model that is evaluated second.
\<close>

theorem select_best_lower_rmse:
  "(rmse xgb_results < rmse rf_results \<longrightarrow>
      select_best xgb_model rf_model xgb_results rf_results
        = (xgb_model, ''XGBoost'', xgb_results))
   \<and> (rmse rf_results < rmse xgb_results \<longrightarrow>
      select_best xgb_model rf_model xgb_results rf_results
        = (rf_model, ''Random Forest'', rf_results))
   \<and> (rmse xgb_results = rmse rf_results \<longrightarrow>
      select_best xgb_model rf_model xgb_results rf_results
        = (rf_model, ''Random Forest'', rf_results))
   \<and> rmse (snd (snd (select_best xgb_model rf_model xgb_results rf_results)))
        = min (rmse xgb_results) (rmse rf_results)"
  by (simp add: select_best_def)

text \<open>
  The scenario of claim C1: with RMSE 4.2 and 3.9 the model with 3.9 is selected, in
  either order; with RMSE 4 and 4 Random Forest is selected.
\<close>

theorem select_best_lower_rmse_witness:
  "select_best ''xgb'' ''rf''
      \<lparr>predictions = [], rmse = 42 / 10, mae = 3, r2 = 0\<rparr>
      \<lparr>predictions = [], rmse = 39 / 10, mae = 3, r2 = 0\<rparr>
     = (''rf'', ''Random Forest'', \<lparr>predictions = [], rmse = 39 / 10, mae = 3, r2 = 0\<rparr>)
   \<and> select_best ''xgb'' ''rf''
      \<lparr>predictions = [], rmse = 39 / 10, mae = 3, r2 = 0\<rparr>
      \<lparr>predictions = [], rmse = 42 / 10, mae = 3, r2 = 0\<rparr>
     = (''xgb'', ''XGBoost'', \<lparr>predictions = [], rmse = 39 / 10, mae = 3, r2 = 0\<rparr>)
   \<and> select_best ''xgb'' ''rf''
      \<lparr>predictions = [], rmse = 4, mae = 3, r2 = 0\<rparr>
      \<lparr>predictions = [], rmse = 4, mae = 2, r2 = 0\<rparr>
     = (''rf'', ''Random Forest'', \<lparr>predictions = [], rmse = 4, mae = 2, r2 = 0\<rparr>)"
  using select_best_lower_rmse
      [of "\<lparr>predictions = [], rmse = 42 / 10, mae = 3, r2 = 0\<rparr>"
          "\<lparr>predictions = [], rmse = 39 / 10, mae = 3, r2 = 0\<rparr>" "''xgb''" "''rf''"]
    select_best_lower_rmse
      [of "\<lparr>predictions = [], rmse = 39 / 10, mae = 3, r2 = 0\<rparr>"
          "\<lparr>predictions = [], rmse = 42 / 10, mae = 3, r2 = 0\<rparr>" "''xgb''" "''rf''"]
    select_best_lower_rmse
      [of "\<lparr>predictions = [], rmse = 4, mae = 3, r2 = 0\<rparr>"
          "\<lparr>predictions = [], rmse = 4, mae = 2, r2 = 0\<rparr>" "''xgb''" "''rf''"]
  by simp

text \<open>
  Claim C1 as stated fails at a tie: with RMSE 4 for both models the selector does not
  take XGBoost, the model evaluated first, but Random Forest.
\<close>

theorem select_best_tie_counterexample:
  "rmse \<lparr>predictions = [], rmse = 4, mae = 3, r2 = 0\<rparr>
     = rmse \<lparr>predictions = [], rmse = 4, mae = 2, r2 = 0\<rparr>
   \<and> fst (snd (select_best ''xgb'' ''rf''
        \<lparr>predictions = [], rmse = 4, mae = 3, r2 = 0\<rparr>
        \<lparr>predictions = [], rmse = 4, mae = 2, r2 = 0\<rparr>)) = ''Random Forest''
   \<and> fst (snd (select_best ''xgb'' ''rf''
        \<lparr>predictions = [], rmse = 4, mae = 3, r2 = 0\<rparr>
        \<lparr>predictions = [], rmse = 4, mae = 2, r2 = 0\<rparr>)) \<noteq> ''XGBoost''"
  by (simp add: select_best_def)

subsection \<open>Evaluator\<close>

text \<open>
  Claim C2. The evaluator clamps and then scores. Whenever \<^verbatim>\<open>predict\<close> returns the
  outputs \<open>y_raw\<close> and the three metrics return on the clamped outputs,
  \<^verbatim>\<open>evaluate_model\<close> returns: its predictions are \<open>y_raw\<close> clamped at zero, none of
  them negative, its RMSE is the square root of the mean squared error of the clamped
  outputs, and its MAE and R2 are those of the clamped outputs. Conversely, whenever
  \<^verbatim>\<open>evaluate_model\<close> returns, its predictions and metrics are such.
\<close>

theorem evaluate_model_clamps:
  "(evaluate_model sk model X_test y_test model_name = Inr res \<longrightarrow>
      (\<exists>raw mse.
           predict sk model X_test = Inr raw
         \<and> predictions res = map (\<lambda>p. max p 0) raw
         \<and> (\<forall>p \<in> set (predictions res). 0 \<le> p)
         \<and> mean_squared_error sk y_test (predictions res) = Inr mse
         \<and> rmse res = sqrt mse
         \<and> mean_absolute_error sk y_test (predictions res) = Inr (mae res)
         \<and> r2_score sk y_test (predictions res) = Inr (r2 res)))
   \<and> (predict sk model X_test = Inr y_raw \<longrightarrow>
      mean_squared_error sk y_test (map (\<lambda>p. max p 0) y_raw) = Inr mse_v \<longrightarrow>
      mean_absolute_error sk y_test (map (\<lambda>p. max p 0) y_raw) = Inr mae_v \<longrightarrow>
      r2_score sk y_test (map (\<lambda>p. max p 0) y_raw) = Inr r2_v \<longrightarrow>
        evaluate_model sk model X_test y_test model_name
          = Inr \<lparr>predictions = map (\<lambda>p. max p 0) y_raw, rmse = sqrt mse_v,
                 mae = mae_v, r2 = r2_v\<rparr>
        \<and> (\<forall>p \<in> set (map (\<lambda>p. max p 0) y_raw). 0 \<le> p))"
  by (auto simp: evaluate_model_def Let_def split: sum.splits)

text \<open>
  An instance of claim C2: on a test matrix of two rows the model's outputs \<open>-7\<close> and
  \<open>4\<close> are scored, and returned, as \<open>0\<close> and \<open>4\<close>.
\<close>

theorem evaluate_model_clamps_witness:
  "predict rowwise_lib example_model (Array [[IntV 8], [IntV 19]]) = Inr [- 7, 4]
   \<and> map (\<lambda>p. max p 0) [- 7, 4] = [0, 4 :: real]
   \<and> mean_squared_error rowwise_lib [2, 6] [0, 4] = Inr 4
   \<and> mean_absolute_error rowwise_lib [2, 6] [0, 4] = Inr 2
   \<and> r2_score rowwise_lib [2, 6] [0, 4] = Inr 0
   \<and> evaluate_model rowwise_lib example_model (Array [[IntV 8], [IntV 19]]) [2, 6] ''XGBoost''
     = Inr \<lparr>predictions = [0, 4], rmse = 2, mae = 2, r2 = 0\<rparr>"
proof -
  have sq: "sqrt 4 = 2"
    using real_sqrt_abs [of 2] by simp
  have p: "predict rowwise_lib example_model (Array [[IntV 8], [IntV 19]]) = Inr [- 7, 4]"
    by (simp add: rowwise_lib_def example_model_def)
  have c: "map (\<lambda>p. max p 0) [- 7, 4] = [0, 4 :: real]"
    by simp
  have m: "mean_squared_error rowwise_lib [2, 6] [0, 4] = Inr 4"
    "mean_absolute_error rowwise_lib [2, 6] [0, 4] = Inr 2"
    "r2_score rowwise_lib [2, 6] [0, 4] = Inr 0"
    by (simp_all add: rowwise_lib_def example_lib_def Let_def)
  have "evaluate_model rowwise_lib example_model (Array [[IntV 8], [IntV 19]]) [2, 6] ''XGBoost''
     = Inr \<lparr>predictions = [0, 4], rmse = 2, mae = 2, r2 = 0\<rparr>"
    using evaluate_model_clamps [where sk = rowwise_lib and model = example_model
        and X_test = "Array [[IntV 8], [IntV 19]]" and y_test = "[2, 6]" and y_raw = "[- 7, 4]"
        and mse_v = 4 and mae_v = 2 and r2_v = 0 and model_name = "''XGBoost''"]
      p m
    by (simp add: sq)
  with p c m show ?thesis by simp
qed

subsection \<open>Feature Builder: grouping and merging\<close>

lemma map_of_group_insert:
  "map_of (group_insert k v gs) k' =
     (if k' = k then Some (case map_of gs k of None \<Rightarrow> [v] | Some vs \<Rightarrow> vs @ [v])
      else map_of gs k')"
  by (induction gs) auto

lemma keys_group_insert:
  "map fst (group_insert k v gs) =
     (if k \<in> set (map fst gs) then map fst gs else map fst gs @ [k])"
  by (induction gs) force+

lemma distinct_group_insert:
  "distinct (map fst gs) \<Longrightarrow> distinct (map fst (group_insert k v gs))"
  by (simp add: keys_group_insert)

lemma distinct_fold_group_insert:
  "distinct (map fst acc) \<Longrightarrow>
   distinct (map fst (fold (\<lambda>r. group_insert (key r) (val r)) rows acc))"
  by (induction rows arbitrary: acc) (simp_all add: distinct_group_insert)

lemma map_of_fold_group_insert:
  "map_of (fold (\<lambda>r. group_insert (key r) (val r)) rows acc) k =
     (case map_of acc k of
        None \<Rightarrow> (if filter (\<lambda>r. key r = k) rows = [] then None
                 else Some (map val (filter (\<lambda>r. key r = k) rows)))
      | Some old \<Rightarrow> Some (old @ map val (filter (\<lambda>r. key r = k) rows)))"
  by (induction rows arbitrary: acc) (auto simp: map_of_group_insert split: option.splits)

lemma filter_fst_distinct:
  "distinct (map fst xs) \<Longrightarrow>
   filter (\<lambda>p. fst p = k) xs = (case map_of xs k of None \<Rightarrow> [] | Some v \<Rightarrow> [(k, v)])"
proof (induction xs)
  case Nil
  then show ?case by simp
next
  case (Cons p xs)
  obtain a b where p: "p = (a, b)" by (cases p)
  show ?case
  proof (cases "a = k")
    case True
    with Cons.prems p have "k \<notin> fst ` set xs" by auto
    then have "filter (\<lambda>p. fst p = k) xs = []"
      by (auto simp: filter_empty_conv)
    with True p show ?thesis by simp
  next
    case False
    with Cons p show ?thesis by simp
  qed
qed

lemma filter_groupby:
  "filter (\<lambda>p. fst p = k) (groupby key val rows) =
     (if filter (\<lambda>r. key r = k) rows = [] then []
      else [(k, map val (filter (\<lambda>r. key r = k) rows))])"
proof -
  let ?G = "fold (\<lambda>r. group_insert (key r) (val r)) rows []"
  have d: "distinct (map fst ?G)"
    by (rule distinct_fold_group_insert) simp
  have "filter (\<lambda>p. fst p = k) (groupby key val rows)
          = sort_key fst (filter (\<lambda>p. fst p = k) ?G)"
    by (simp add: groupby_def filter_sort)
  also have "filter (\<lambda>p. fst p = k) ?G
          = (case map_of ?G k of None \<Rightarrow> [] | Some v \<Rightarrow> [(k, v)])"
    by (rule filter_fst_distinct [OF d])
  also have "map_of ?G k = (if filter (\<lambda>r. key r = k) rows = [] then None
                 else Some (map val (filter (\<lambda>r. key r = k) rows)))"
    by (simp add: map_of_fold_group_insert)
  finally show ?thesis by simp
qed

lemma filter_route_stats:
  "filter (\<lambda>s. stat_route s = k) (agg_mean_std_count (groupby key val rows)) =
     (if filter (\<lambda>r. key r = k) rows = [] then []
      else [\<lparr>stat_route = k,
             stat_avg_delay = mean (map val (filter (\<lambda>r. key r = k) rows)),
             stat_std_delay = std (map val (filter (\<lambda>r. key r = k) rows)),
             stat_count = length (map val (filter (\<lambda>r. key r = k) rows))\<rparr>])"
proof -
  have "filter (\<lambda>s. stat_route s = k) (agg_mean_std_count (groupby key val rows))
      = agg_mean_std_count (filter (\<lambda>p. fst p = k) (groupby key val rows))"
    by (simp add: agg_mean_std_count_def filter_map comp_def case_prod_unfold)
  then show ?thesis
    by (simp add: filter_groupby) (simp add: agg_mean_std_count_def)
qed

lemma merge_left_route_stats:
  "merge_left route_key stat_route df (agg_mean_std_count (groupby route_key delay df')) =
     concat (map (\<lambda>d. if filter (\<lambda>r. route_key r = route_key d) df' = [] then [(d, None)]
           else [(d, Some \<lparr>stat_route = route_key d,
                   stat_avg_delay = mean (route_delays df' (route_key d)),
                   stat_std_delay = std (route_delays df' (route_key d)),
                   stat_count = length (route_delays df' (route_key d))\<rparr>)]) df)"
  unfolding merge_left_def filter_route_stats route_delays_def
  by (intro arg_cong [where f = concat] map_cong refl) simp


lemma create_features_eq:
  "create_features df =
     map (\<lambda>d. feature_row_of d
            (Some \<lparr>stat_route = route_key d,
                   stat_avg_delay = mean (route_delays df (route_key d)),
                   stat_std_delay = std (route_delays df (route_key d)),
                   stat_count = length (route_delays df (route_key d))\<rparr>)) df"
proof -
  have "merge_left route_key stat_route df (agg_mean_std_count (groupby route_key delay df))
      = concat (map (\<lambda>d. [(d, Some \<lparr>stat_route = route_key d,
                   stat_avg_delay = mean (route_delays df (route_key d)),
                   stat_std_delay = std (route_delays df (route_key d)),
                   stat_count = length (route_delays df (route_key d))\<rparr>)]) df)"
    unfolding merge_left_route_stats
    by (intro arg_cong [where f = concat] map_cong refl) (auto simp: filter_empty_conv)
  then show ?thesis
    by (simp add: create_features_def Let_def map_concat comp_def)
qed

lemma length_create_features: "length (create_features df) = length df"
  by (simp add: create_features_eq)

lemma route_delays_nonempty: "d \<in> set df \<Longrightarrow> route_delays df (route_key d) \<noteq> []"
  by (auto simp: route_delays_def filter_empty_conv)

lemma create_features_cases:
  assumes "r \<in> set (create_features df)"
  obtains d where "d \<in> set df"
    and "r = feature_row_of d
            (Some \<lparr>stat_route = route_key d,
                   stat_avg_delay = mean (route_delays df (route_key d)),
                   stat_std_delay = std (route_delays df (route_key d)),
                   stat_count = length (route_delays df (route_key d))\<rparr>)"
  using assms by (auto simp: create_features_eq)

lemma nth_create_features:
  "i < length df \<Longrightarrow> create_features df ! i =
      feature_row_of (df ! i)
            (Some \<lparr>stat_route = route_key (df ! i),
                   stat_avg_delay = mean (route_delays df (route_key (df ! i))),
                   stat_std_delay = std (route_delays df (route_key (df ! i))),
                   stat_count = length (route_delays df (route_key (df ! i)))\<rparr>)"
  by (simp add: create_features_eq)

lemma all_less_3: "(\<forall>i<3. P i) \<longleftrightarrow> P 0 \<and> P 1 \<and> P (2::nat)"
proof -
  have "i < 3 \<longleftrightarrow> i = 0 \<or> i = 1 \<or> i = 2" for i :: nat by arith
  then show ?thesis by auto
qed

lemma all_less_4: "(\<forall>i<4. P i) \<longleftrightarrow> P 0 \<and> P 1 \<and> P 2 \<and> P (3::nat)"
proof -
  have "i < 4 \<longleftrightarrow> i = 0 \<or> i = 1 \<or> i = 2 \<or> i = 3" for i :: nat by arith
  then show ?thesis by auto
qed

lemma map_of_length_3:
  "length xs = 3 \<Longrightarrow> map f xs = [f (xs ! 0), f (xs ! 1), f (xs ! 2)]"
  by (simp add: list_eq_iff_nth_eq all_less_3)

lemma map_of_length_4:
  "length xs = 4 \<Longrightarrow> map f xs = [f (xs ! 0), f (xs ! 1), f (xs ! 2), f (xs ! 3)]"
  by (simp add: list_eq_iff_nth_eq all_less_4)

lemma scenario_len: "length scenario_departures = 3"
  by (simp add: scenario_departures_def)

lemma scenario_route_keys:
  "route_key (scenario_departures ! 0) = ''A_B''"
  "route_key (scenario_departures ! 1) = ''A_B''"
  "route_key (scenario_departures ! 2) = ''A_B''"
  by (simp_all add: scenario_departures_def route_key_def)

lemma scenario_route_delays: "route_delays scenario_departures ''A_B'' = [5, 7, 3]"
  by (simp add: route_delays_def scenario_departures_def route_key_def)

lemma mixed_len: "length mixed_departures = 4"
  by (simp add: mixed_departures_def single_departure_def scenario_departures_def)

lemma mixed_hours:
  "hour (mixed_departures ! 0) = 23" "hour (mixed_departures ! 1) = 8"
  "hour (mixed_departures ! 2) = 8" "hour (mixed_departures ! 3) = 20"
  by (simp_all add: mixed_departures_def single_departure_def scenario_departures_def)

lemma mixed_route_keys:
  "route_key (mixed_departures ! 0) = ''C_D''" "route_key (mixed_departures ! 1) = ''A_B''"
  "route_key (mixed_departures ! 2) = ''A_B''" "route_key (mixed_departures ! 3) = ''A_B''"
  by (simp_all add: mixed_departures_def single_departure_def scenario_departures_def
      route_key_def)

lemma mixed_route_delays:
  "route_delays mixed_departures ''C_D'' = [4]"
  "route_delays mixed_departures ''A_B'' = [5, 7, 3]"
  by (simp_all add: route_delays_def mixed_departures_def single_departure_def
      scenario_departures_def route_key_def)

subsection \<open>Feature Builder: route statistics\<close>

text \<open>
  Claim C3. \<^verbatim>\<open>create_features\<close> produces one row for every record of \<open>df\<close>, in
  order, and the row of a record carries the route key and the delay of that record. In
  every row \<open>r\<close> the three route columns are aggregated over all records of \<open>df\<close> with
  the route of \<open>r\<close>: \<^verbatim>\<open>route_avg_delay\<close> is the mean of their delays,
  \<^verbatim>\<open>route_count\<close> their number, and \<^verbatim>\<open>route_std_delay\<close> their sample standard
  deviation, or exactly 0 when the route has a single record. None of the three is NaN.
\<close>

theorem route_statistics_per_route:
  "length (create_features df) = length df
   \<and> (\<forall>i < length df. route (create_features df ! i) = route_key (df ! i)
                      \<and> delay (create_features df ! i) = delay (df ! i))
   \<and> (\<forall>r \<in> set (create_features df).
        let ds = route_delays df (route r);
            n = length ds;
            avg = sum_list ds / real n
        in ds \<noteq> []
         \<and> route_avg_delay r = Some avg
         \<and> route_count r = Some n
         \<and> route_std_delay r =
             (if n = 1 then 0
              else sqrt (sum_list (map (\<lambda>v. (v - avg)\<^sup>2) ds) / real (n - 1))))"
proof (intro conjI allI impI ballI)
  show "length (create_features df) = length df"
    by (rule length_create_features)
next
  fix i assume "i < length df"
  then show "route (create_features df ! i) = route_key (df ! i)"
    by (simp add: nth_create_features feature_row_of_def)
next
  fix i assume "i < length df"
  then show "delay (create_features df ! i) = delay (df ! i)"
    by (simp add: nth_create_features feature_row_of_def)
next
  fix r assume "r \<in> set (create_features df)"
  then obtain d where d: "d \<in> set df"
    and r: "r = feature_row_of d
            (Some \<lparr>stat_route = route_key d,
                   stat_avg_delay = mean (route_delays df (route_key d)),
                   stat_std_delay = std (route_delays df (route_key d)),
                   stat_count = length (route_delays df (route_key d))\<rparr>)"
    by (rule create_features_cases)
  have ne: "route_delays df (route_key d) \<noteq> []"
    using d by (rule route_delays_nonempty)
  then have len: "length (route_delays df (route_key d)) \<noteq> 0" by simp
  have rt: "route r = route_key d" by (simp add: r feature_row_of_def)
  show "let ds = route_delays df (route r);
            n = length ds;
            avg = sum_list ds / real n
        in ds \<noteq> []
         \<and> route_avg_delay r = Some avg
         \<and> route_count r = Some n
         \<and> route_std_delay r =
             (if n = 1 then 0
              else sqrt (sum_list (map (\<lambda>v. (v - avg)\<^sup>2) ds) / real (n - 1)))"
    unfolding Let_def rt
    using ne len
    by (auto simp: r feature_row_of_def mean_def std_def fillna0_def Let_def)
qed

text \<open>
  The scenario of claim C3: for the three departures from A to B with delays 5, 7 and 3,
  every row has route \<^verbatim>\<open>A_B\<close>, mean 5, count 3 and the sample standard deviation of
  5, 7, 3 (which is 2). With the single run from C to D in front, that run gets mean 4,
  count 1 and standard deviation 0, and the other three rows keep their values.
\<close>

theorem route_statistics_per_route_witness:
  "length (create_features scenario_departures) = 3
   \<and> map route (create_features scenario_departures) = [''A_B'', ''A_B'', ''A_B'']
   \<and> route_delays scenario_departures ''A_B'' = [5, 7, 3]
   \<and> map route_avg_delay (create_features scenario_departures) = [Some 5, Some 5, Some 5]
   \<and> map route_count (create_features scenario_departures) = [Some 3, Some 3, Some 3]
   \<and> map route_std_delay (create_features scenario_departures)
       = [sqrt (((5 - 5)\<^sup>2 + (7 - 5)\<^sup>2 + (3 - 5)\<^sup>2) / 2), 2, 2]
   \<and> length (create_features mixed_departures) = 4
   \<and> map route (create_features mixed_departures) = [''C_D'', ''A_B'', ''A_B'', ''A_B'']
   \<and> route_delays mixed_departures ''C_D'' = [4]
   \<and> route_delays mixed_departures ''A_B'' = [5, 7, 3]
   \<and> map route_avg_delay (create_features mixed_departures)
       = [Some 4, Some 5, Some 5, Some 5]
   \<and> map route_count (create_features mixed_departures)
       = [Some 1, Some 3, Some 3, Some 3]
   \<and> map route_std_delay (create_features mixed_departures) = [0, 2, 2, 2]"
proof -
  let ?sf = "create_features scenario_departures"
  let ?cf = "create_features mixed_departures"
  note U = route_statistics_per_route [of scenario_departures]
  note T = route_statistics_per_route [of mixed_departures]
  have sq: "sqrt 4 = 2"
    using real_sqrt_abs [of 2] by simp
  from U have K: "length ?sf = 3"
    by (simp add: scenario_len)
  from U have "\<forall>i<3. route (?sf ! i) = route_key (scenario_departures ! i)
                      \<and> delay (?sf ! i) = delay (scenario_departures ! i)"
    unfolding scenario_len by (elim conjE)
  then have Q: "route (?sf ! 0) = ''A_B''" "route (?sf ! 1) = ''A_B''"
    "route (?sf ! 2) = ''A_B''"
    unfolding all_less_3 scenario_route_keys by simp_all
  have V: "route_avg_delay (?sf ! i) = Some (sum_list ds / real (length ds))
         \<and> route_count (?sf ! i) = Some (length ds)
         \<and> route_std_delay (?sf ! i) =
             (if length ds = 1 then 0
              else sqrt (sum_list (map (\<lambda>v. (v - sum_list ds / real (length ds))\<^sup>2) ds)
                     / real (length ds - 1)))"
    if "i < 3" "route (?sf ! i) = k" "route_delays scenario_departures k = ds" for i k ds
  proof -
    from that(1) K have "?sf ! i \<in> set ?sf" by simp
    with U show ?thesis
      unfolding that(2) [symmetric] that(3) [symmetric] Let_def by blast
  qed
  have srows:
    "route_avg_delay (?sf ! 0) = Some 5" "route_count (?sf ! 0) = Some 3"
    "route_std_delay (?sf ! 0) = 2"
    "route_avg_delay (?sf ! 1) = Some 5" "route_count (?sf ! 1) = Some 3"
    "route_std_delay (?sf ! 1) = 2"
    "route_avg_delay (?sf ! 2) = Some 5" "route_count (?sf ! 2) = Some 3"
    "route_std_delay (?sf ! 2) = 2"
    using V [OF _ Q(1) scenario_route_delays] V [OF _ Q(2) scenario_route_delays]
      V [OF _ Q(3) scenario_route_delays]
    by (simp_all add: sq)
  from T have L: "length ?cf = 4"
    by (simp add: mixed_len)
  from T have "\<forall>i<4. route (?cf ! i) = route_key (mixed_departures ! i)
                      \<and> delay (?cf ! i) = delay (mixed_departures ! i)"
    unfolding mixed_len by (elim conjE)
  then have R: "route (?cf ! 0) = ''C_D''" "route (?cf ! 1) = ''A_B''"
    "route (?cf ! 2) = ''A_B''" "route (?cf ! 3) = ''A_B''"
    unfolding all_less_4 mixed_route_keys by simp_all
  have S: "route_avg_delay (?cf ! i) = Some (sum_list ds / real (length ds))
         \<and> route_count (?cf ! i) = Some (length ds)
         \<and> route_std_delay (?cf ! i) =
             (if length ds = 1 then 0
              else sqrt (sum_list (map (\<lambda>v. (v - sum_list ds / real (length ds))\<^sup>2) ds)
                     / real (length ds - 1)))"
    if "i < 4" "route (?cf ! i) = k" "route_delays mixed_departures k = ds" for i k ds
  proof -
    from that(1) L have "?cf ! i \<in> set ?cf" by simp
    with T show ?thesis
      unfolding that(2) [symmetric] that(3) [symmetric] Let_def by blast
  qed
  have rows:
    "route_avg_delay (?cf ! 0) = Some 4" "route_count (?cf ! 0) = Some 1"
    "route_std_delay (?cf ! 0) = 0"
    "route_avg_delay (?cf ! 1) = Some 5" "route_count (?cf ! 1) = Some 3"
    "route_std_delay (?cf ! 1) = 2"
    "route_avg_delay (?cf ! 2) = Some 5" "route_count (?cf ! 2) = Some 3"
    "route_std_delay (?cf ! 2) = 2"
    "route_avg_delay (?cf ! 3) = Some 5" "route_count (?cf ! 3) = Some 3"
    "route_std_delay (?cf ! 3) = 2"
    using S [OF _ R(1) mixed_route_delays(1)] S [OF _ R(2) mixed_route_delays(2)]
      S [OF _ R(3) mixed_route_delays(2)] S [OF _ R(4) mixed_route_delays(2)]
    by (simp_all add: sq)
  show ?thesis
    unfolding map_of_length_3 [OF K] map_of_length_4 [OF L] srows rows Q R
      scenario_route_delays mixed_route_delays
    using K L by (simp add: sq)
qed

subsection \<open>Feature Builder: time features\<close>

text \<open>
  Claim C5. \<^verbatim>\<open>create_features\<close> produces one row for every record of \<open>df\<close>, in
  order; the row of a record with hour \<open>h\<close> has that hour, its \<^verbatim>\<open>hour_sin\<close> and
  \<^verbatim>\<open>hour_cos\<close> are the sine and cosine of \<open>2 * pi * h / 24\<close>, and their squares
  add up to 1. This holds for every hour, in particular for those from 0 to 23, and so
  for every row produced. (On reals the sum is exactly 1; the rounding of floats is not
  modelled.)
\<close>

theorem cyclical_hour_encoding:
  "length (create_features df) = length df
   \<and> (\<forall>i < length df.
         hour (create_features df ! i) = hour (df ! i)
       \<and> hour_sin (create_features df ! i) = sin (2 * pi * real_of_int (hour (df ! i)) / 24)
       \<and> hour_cos (create_features df ! i) = cos (2 * pi * real_of_int (hour (df ! i)) / 24)
       \<and> (hour_sin (create_features df ! i))\<^sup>2 + (hour_cos (create_features df ! i))\<^sup>2 = 1)
   \<and> (\<forall>r \<in> set (create_features df).
         hour_sin r = sin (2 * pi * real_of_int (hour r) / 24)
       \<and> hour_cos r = cos (2 * pi * real_of_int (hour r) / 24)
       \<and> (hour_sin r)\<^sup>2 + (hour_cos r)\<^sup>2 = 1)"
proof -
  have 1: "length (create_features df) = length df"
    by (rule length_create_features)
  have 2: "hour (create_features df ! i) = hour (df ! i)
       \<and> hour_sin (create_features df ! i) = sin (2 * pi * real_of_int (hour (df ! i)) / 24)
       \<and> hour_cos (create_features df ! i) = cos (2 * pi * real_of_int (hour (df ! i)) / 24)
       \<and> (hour_sin (create_features df ! i))\<^sup>2 + (hour_cos (create_features df ! i))\<^sup>2 = 1"
    if "i < length df" for i
    using that by (simp add: nth_create_features feature_row_of_def)
  have 3: "hour_sin r = sin (2 * pi * real_of_int (hour r) / 24)
       \<and> hour_cos r = cos (2 * pi * real_of_int (hour r) / 24)
       \<and> (hour_sin r)\<^sup>2 + (hour_cos r)\<^sup>2 = 1"
    if "r \<in> set (create_features df)" for r
    using that by (auto elim!: create_features_cases simp: feature_row_of_def)
  from 1 2 3 show ?thesis by blast
qed

text \<open>
  An instance of claim C5: the departures at 23:00, 08:00, 08:00 and 20:00 give four
  rows with these hours and their encodings.
\<close>

theorem cyclical_hour_encoding_witness:
  "length (create_features mixed_departures) = 4
   \<and> map hour (create_features mixed_departures) = [23, 8, 8, 20]
   \<and> map hour_sin (create_features mixed_departures)
       = [sin (2 * pi * 23 / 24), sin (2 * pi * 8 / 24), sin (2 * pi * 8 / 24),
          sin (2 * pi * 20 / 24)]
   \<and> map hour_cos (create_features mixed_departures)
       = [cos (2 * pi * 23 / 24), cos (2 * pi * 8 / 24), cos (2 * pi * 8 / 24),
          cos (2 * pi * 20 / 24)]
   \<and> map (\<lambda>r. (hour_sin r)\<^sup>2 + (hour_cos r)\<^sup>2) (create_features mixed_departures)
       = [1, 1, 1, 1]"
proof -
  let ?cf = "create_features mixed_departures"
  note T = cyclical_hour_encoding [of mixed_departures]
  from T have L: "length ?cf = 4"
    by (simp add: mixed_len)
  from T have "\<forall>i<4.
         hour (?cf ! i) = hour (mixed_departures ! i)
       \<and> hour_sin (?cf ! i) = sin (2 * pi * real_of_int (hour (mixed_departures ! i)) / 24)
       \<and> hour_cos (?cf ! i) = cos (2 * pi * real_of_int (hour (mixed_departures ! i)) / 24)
       \<and> (hour_sin (?cf ! i))\<^sup>2 + (hour_cos (?cf ! i))\<^sup>2 = 1"
    unfolding mixed_len by (elim conjE)
  then show ?thesis
    unfolding all_less_4 mixed_hours map_of_length_4 [OF L]
    using L by simp
qed

text \<open>
  Claim C6. In every row that \<^verbatim>\<open>create_features\<close> produces, \<^verbatim>\<open>is_rush_hour\<close>
  holds exactly when the hour is from 7 to 9 or from 17 to 19, and \<^verbatim>\<open>is_night\<close>
  exactly when the hour is at most 6 or at least 22.
\<close>

theorem rush_hour_and_night_indicators:
  assumes "r \<in> set (create_features df)"
  shows "(is_rush_hour r \<longleftrightarrow> (7 \<le> hour r \<and> hour r \<le> 9) \<or> (17 \<le> hour r \<and> hour r \<le> 19))
       \<and> (is_night r \<longleftrightarrow> hour r \<le> 6 \<or> 22 \<le> hour r)"
  using assms by (auto elim!: create_features_cases simp: feature_row_of_def)

text \<open>
  Instances of claim C6: a row at 08:00 is rush hour and not night, a row at 23:00 is
  night and not rush hour.
\<close>

theorem rush_hour_and_night_indicators_witness:
  "create_features scenario_departures ! 0 \<in> set (create_features scenario_departures)
   \<and> hour (create_features scenario_departures ! 0) = 8
   \<and> is_rush_hour (create_features scenario_departures ! 0)
   \<and> \<not> is_night (create_features scenario_departures ! 0)
   \<and> create_features single_departure ! 0 \<in> set (create_features single_departure)
   \<and> hour (create_features single_departure ! 0) = 23
   \<and> \<not> is_rush_hour (create_features single_departure ! 0)
   \<and> is_night (create_features single_departure ! 0)"
proof -
  have m: "create_features scenario_departures ! 0 \<in> set (create_features scenario_departures)"
    by (rule nth_mem) (simp add: length_create_features scenario_departures_def)
  have h: "hour (create_features scenario_departures ! 0) = 8"
    by (simp add: nth_create_features scenario_departures_def feature_row_of_def)
  have m1: "create_features single_departure ! 0 \<in> set (create_features single_departure)"
    by (rule nth_mem) (simp add: length_create_features single_departure_def)
  have h1: "hour (create_features single_departure ! 0) = 23"
    by (simp add: nth_create_features single_departure_def feature_row_of_def)
  show ?thesis
    using rush_hour_and_night_indicators [OF m] rush_hour_and_night_indicators [OF m1]
    by (simp add: m h m1 h1)
qed

text \<open>
  Claim C7. In no row that \<^verbatim>\<open>create_features\<close> produces are \<^verbatim>\<open>is_rush_hour\<close> and
  \<^verbatim>\<open>is_night\<close> both true, whatever the hour of the row (in particular for the hours
  from 0 to 23).
\<close>

theorem rush_hour_night_exclusive:
  assumes "r \<in> set (create_features df)"
  shows "\<not> (is_rush_hour r \<and> is_night r)"
  using assms by (auto elim!: create_features_cases simp: feature_row_of_def)

text \<open>
  Instances of claim C7: at 20:00 neither indicator is set, at 23:00 only
  \<^verbatim>\<open>is_night\<close>.
\<close>

theorem rush_hour_night_exclusive_witness:
  "create_features scenario_departures ! 2 \<in> set (create_features scenario_departures)
   \<and> hour (create_features scenario_departures ! 2) = 20
   \<and> (is_rush_hour (create_features scenario_departures ! 2)
        \<and> is_night (create_features scenario_departures ! 2)) = False
   \<and> create_features single_departure ! 0 \<in> set (create_features single_departure)
   \<and> hour (create_features single_departure ! 0) = 23
   \<and> (is_rush_hour (create_features single_departure ! 0)
        \<and> is_night (create_features single_departure ! 0)) = False"
proof -
  have m: "create_features scenario_departures ! 2 \<in> set (create_features scenario_departures)"
    by (rule nth_mem) (simp add: length_create_features scenario_departures_def)
  have h: "hour (create_features scenario_departures ! 2) = 20"
    by (simp add: nth_create_features scenario_departures_def feature_row_of_def)
  have m1: "create_features single_departure ! 0 \<in> set (create_features single_departure)"
    by (rule nth_mem) (simp add: length_create_features single_departure_def)
  have h1: "hour (create_features single_departure ! 0) = 23"
    by (simp add: nth_create_features single_departure_def feature_row_of_def)
  show ?thesis
    using rush_hour_night_exclusive [OF m] rush_hour_night_exclusive [OF m1]
    by (simp add: m h m1 h1)
qed

subsection \<open>Encoder: the code table\<close>

lemma index_in_less: "v \<in> set xs \<Longrightarrow> index_in xs v < length xs"
  unfolding index_in_def by (induction xs) auto

lemma nth_index_in: "v \<in> set xs \<Longrightarrow> xs ! index_in xs v = v"
  unfolding index_in_def by (induction xs) auto

lemma index_in_nth: "distinct xs \<Longrightarrow> i < length xs \<Longrightarrow> index_in xs (xs ! i) = i"
  unfolding index_in_def
proof (induction xs arbitrary: i)
  case Nil
  then show ?case by simp
next
  case (Cons x xs)
  then show ?case by (cases i) auto
qed

lemma fold_enumerate_upd:
  "distinct xs \<Longrightarrow>
   fold (\<lambda>(i, v) t. t(v \<mapsto> i)) (enumerate n xs) t0 k =
     (if k \<in> set xs then Some (n + index_in xs k) else t0 k)"
proof (induction xs arbitrary: n t0)
  case Nil
  then show ?case by simp
next
  case (Cons x xs)
  then show ?case by (auto simp: index_in_def)
qed

lemma code_table_distinct:
  "distinct uniques \<Longrightarrow>
   code_table uniques k = (if k \<in> set uniques then Some (index_in uniques k) else None)"
  by (simp add: code_table_def fold_enumerate_upd)

lemma lookup_all_Some:
  "(\<And>v. v \<in> set vs \<Longrightarrow> t v = Some (f v)) \<Longrightarrow> lookup_all t vs = Inr (map f vs)"
  by (induction vs) auto

lemma map_to_integer_subset:
  "distinct uniques \<Longrightarrow> set y \<subseteq> set uniques \<Longrightarrow>
   map_to_integer y uniques = Inr (map (index_in uniques) y)"
  unfolding map_to_integer_def
  by (rule lookup_all_Some) (auto simp: code_table_distinct)

lemma map_to_integer_unseen:
  "distinct uniques \<Longrightarrow> k \<notin> set uniques \<Longrightarrow> map_to_integer [k] uniques = Inl ValueError"
  by (simp add: map_to_integer_def code_table_distinct)

lemma fit_transform_eq:
  "fit_transform y =
     Inr (\<lparr>classes = sorted_list_of_set (set y)\<rparr>,
          map (index_in (sorted_list_of_set (set y))) y)"
  by (simp add: fit_transform_def Let_def map_to_integer_subset)

lemma transform_seen:
  "distinct (classes le) \<Longrightarrow> k \<in> set (classes le) \<Longrightarrow>
   transform le [k] = Inr [index_in (classes le) k]"
  by (simp add: transform_def map_to_integer_subset)

lemma cell_at_route: "cell_at r ''route'' = StrV (route r)"
  by (simp add: cell_at_def row_cells_def feature_row_columns_def)

lemma getitem_feature_columns:
  "getitem_columns df feature_columns =
     Inr (map (\<lambda>c. (c, map (\<lambda>r. cell_at r c) df)) feature_columns)"
  by (simp add: getitem_columns_def feature_columns_def feature_row_columns_def)

lemma astype_str_StrV: "astype_str (map (\<lambda>r. StrV (f r)) rows) = Inr (map f rows)"
  by (induction rows) auto

lemma frame_column_route:
  "frame_column (map (\<lambda>c. (c, map (\<lambda>r. cell_at r c) df)) feature_columns) ''route''
     = Inr (map (\<lambda>r. StrV (route r)) df)"
  by (simp add: frame_column_def feature_columns_def cell_at_route)

lemma setitem_route:
  "length vs = length df \<Longrightarrow>
   setitem_column (map (\<lambda>c. (c, map (\<lambda>r. cell_at r c) df)) feature_columns) ''route'' vs
     = Inr (map (\<lambda>c. (c, if c = ''route'' then vs else map (\<lambda>r. cell_at r c) df))
              feature_columns)"
  by (simp add: setitem_column_def feature_columns_def)

lemma prepare_features_eq:
  "prepare_features df =
     Inr (map (\<lambda>c. (c, if c = ''route''
                        then map (\<lambda>r. IntV (int (index_in
                               (sorted_list_of_set (route ` set df)) (route r)))) df
                        else map (\<lambda>r. cell_at r c) df)) feature_columns,
          map delay df,
          [''route_encoder'' \<mapsto> \<lparr>classes = sorted_list_of_set (route ` set df)\<rparr>])"
  by (simp add: prepare_features_def getitem_feature_columns categorical_columns_def
      frame_column_route astype_str_StrV fit_transform_eq setitem_route comp_def)

lemma map_route_create_features: "map route (create_features df) = map route_key df"
  by (simp add: create_features_eq feature_row_of_def)

lemma prepare_features_route_column:
  assumes "prepare_features df = Inr (X, y, les)"
  shows "frame_column X ''route'' =
           Inr (map (\<lambda>k. IntV (int (index_in (sorted_list_of_set (set (map route df))) k)))
                  (map route df))"
    and "les = [''route_encoder'' \<mapsto> \<lparr>classes = sorted_list_of_set (set (map route df))\<rparr>]"
  using assms
  by (auto simp: prepare_features_eq frame_column_def feature_columns_def comp_def)

lemma columns_prepare_features:
  "prepare_features df = Inr (X, y, les) \<Longrightarrow> columns X = feature_columns"
  by (auto simp: prepare_features_eq columns_def comp_def)

subsection \<open>Encoder: codes and round trip\<close>

text \<open>
  Claim C4. The cell that prepares the features always completes. The encoder it stores
  under \<^verbatim>\<open>route_encoder\<close> in \<^verbatim>\<open>label_encoders\<close> (the dictionary that is dumped
  to \<^verbatim>\<open>encoders.pkl\<close>) has as many classes as there are distinct route keys; the code
  of every row, as stored in the \<^verbatim>\<open>route\<close> column of the training matrix, is below
  that number; rows with the same code have the same route key; and transforming the
  route key of a row with the stored encoder gives again the code of that row.
  (\<^verbatim>\<open>LabelEncoder\<close> is library code, modelled from its documented behaviour; writing
  the dictionary to disk and reading it back is not modelled.)
\<close>

theorem encoder_round_trip:
  "\<exists>X y le codes.
      prepare_features df = Inr (X, y, [''route_encoder'' \<mapsto> le])
    \<and> frame_column X ''route'' = Inr (map (\<lambda>c. IntV (int c)) codes)
    \<and> length codes = length df
    \<and> length (classes le) = card (route ` set df)
    \<and> (\<forall>j < length df. codes ! j < card (route ` set df)
                         \<and> transform le [route (df ! j)] = Inr [codes ! j])
    \<and> (\<forall>i < length df. \<forall>j < length df.
          codes ! i = codes ! j \<longrightarrow> route (df ! i) = route (df ! j))"
proof -
  let ?S = "sorted_list_of_set (route ` set df)"
  let ?codes = "map (\<lambda>r. index_in ?S (route r)) df"
  let ?X = "map (\<lambda>c. (c, if c = ''route''
                        then map (\<lambda>r. IntV (int (index_in ?S (route r)))) df
                        else map (\<lambda>r. cell_at r c) df)) feature_columns"
  have S: "set ?S = route ` set df" "distinct ?S" "length ?S = card (route ` set df)"
    by simp_all
  have mem: "route (df ! j) \<in> set ?S" if "j < length df" for j
    using that by simp
  have 1: "prepare_features df = Inr (?X, map delay df, [''route_encoder'' \<mapsto> \<lparr>classes = ?S\<rparr>])"
    by (rule prepare_features_eq)
  have 2: "frame_column ?X ''route'' = Inr (map (\<lambda>c. IntV (int c)) ?codes)"
    by (simp add: frame_column_def feature_columns_def comp_def)
  have 3: "length ?codes = length df" by simp
  have 4: "length (classes \<lparr>classes = ?S\<rparr>) = card (route ` set df)" by simp
  have 5: "?codes ! j < card (route ` set df)
         \<and> transform \<lparr>classes = ?S\<rparr> [route (df ! j)] = Inr [?codes ! j]"
    if "j < length df" for j
    using that mem [OF that] index_in_less [OF mem [OF that]]
    by (simp add: transform_seen)
  have 6: "route (df ! i) = route (df ! j)"
    if "i < length df" "j < length df" "?codes ! i = ?codes ! j" for i j
  proof -
    from that have "index_in ?S (route (df ! i)) = index_in ?S (route (df ! j))" by simp
    then have "?S ! index_in ?S (route (df ! i)) = ?S ! index_in ?S (route (df ! j))" by simp
    then show ?thesis
      using mem [OF that(1)] mem [OF that(2)] by (simp only: nth_index_in)
  qed
  from 1 2 3 4 5 6 show ?thesis by blast
qed

text \<open>
  An instance of claim C4: a route C to D followed by the three runs from A to B gets
  the codes 1, 0, 0, 0, and the stored encoder maps \<^verbatim>\<open>C_D\<close> to 1 and
  \<^verbatim>\<open>A_B\<close> to 0.
\<close>

theorem encoder_round_trip_witness:
  "\<exists>X y. prepare_features (create_features (single_departure @ scenario_departures))
            = Inr (X, y, [''route_encoder'' \<mapsto> \<lparr>classes = [''A_B'', ''C_D'']\<rparr>])
        \<and> frame_column X ''route'' = Inr [IntV 1, IntV 0, IntV 0, IntV 0]
        \<and> transform \<lparr>classes = [''A_B'', ''C_D'']\<rparr> [''C_D''] = Inr [1]
        \<and> transform \<lparr>classes = [''A_B'', ''C_D'']\<rparr> [''A_B''] = Inr [0]"
proof -
  let ?df = "create_features (single_departure @ scenario_departures)"
  have r: "map route ?df = [''C_D'', ''A_B'', ''A_B'', ''A_B'']"
    by (simp add: map_route_create_features single_departure_def scenario_departures_def
        route_key_def)
  have S: "sorted_list_of_set (set [''C_D'', ''A_B'', ''A_B'', ''A_B'']) = [''A_B'', ''C_D'']"
    by code_simp
  from encoder_round_trip [of ?df]
  obtain X y le where
    p: "prepare_features ?df = Inr (X, y, [''route_encoder'' \<mapsto> le])"
    by blast
  from prepare_features_route_column [OF p]
  have c: "frame_column X ''route'' = Inr [IntV 1, IntV 0, IntV 0, IntV 0]"
    and le: "le = \<lparr>classes = [''A_B'', ''C_D'']\<rparr>"
    unfolding r S by (auto simp: index_in_def dest: map_upd_eqD1)
  have t: "transform \<lparr>classes = [''A_B'', ''C_D'']\<rparr> [''C_D''] = Inr [1]"
    "transform \<lparr>classes = [''A_B'', ''C_D'']\<rparr> [''A_B''] = Inr [0]"
    by code_simp+
  from p c le t show ?thesis by blast
qed

text \<open>
  Claim C10. Fitting the encoder on a sequence of keys always succeeds. Its classes are
  the keys of the sequence in strictly increasing lexicographic order (so each distinct
  key once); the key at index \<open>i\<close> of the classes is encoded as \<open>i\<close>, and the code of
  each element of the sequence is the index of its key. Two sequences with the same set
  of keys give the same encoder, whatever their order and repetitions.
\<close>

theorem encoder_sorted_index:
  "\<exists>le codes.
      fit_transform y = Inr (le, codes)
    \<and> sorted_wrt (<) (classes le) \<and> set (classes le) = set y
    \<and> (\<forall>i < length (classes le). transform le [classes le ! i] = Inr [i])
    \<and> length codes = length y
    \<and> (\<forall>j < length y. codes ! j < length (classes le) \<and> classes le ! (codes ! j) = y ! j)
    \<and> (\<forall>y'. set y' = set y \<longrightarrow> (\<exists>codes'. fit_transform y' = Inr (le, codes')))"
proof -
  let ?S = "sorted_list_of_set (set y)"
  let ?codes = "map (index_in ?S) y"
  have 1: "fit_transform y = Inr (\<lparr>classes = ?S\<rparr>, ?codes)"
    by (rule fit_transform_eq)
  have 2: "sorted_wrt (<) (classes \<lparr>classes = ?S\<rparr>)" "set (classes \<lparr>classes = ?S\<rparr>) = set y"
    by (simp_all add: strict_sorted_iff)
  have 3: "transform \<lparr>classes = ?S\<rparr> [classes \<lparr>classes = ?S\<rparr> ! i] = Inr [i]"
    if "i < length (classes \<lparr>classes = ?S\<rparr>)" for i
  proof -
    from that have i: "i < length ?S" by simp
    have "?S ! i \<in> set (classes \<lparr>classes = ?S\<rparr>)"
      using nth_mem [OF i] by simp
    then have "transform \<lparr>classes = ?S\<rparr> [?S ! i] = Inr [index_in ?S (?S ! i)]"
      using transform_seen [of "\<lparr>classes = ?S\<rparr>" "?S ! i"] by simp
    with i show ?thesis by (simp add: index_in_nth)
  qed
  have 4: "length ?codes = length y" by simp
  have 5: "?codes ! j < length (classes \<lparr>classes = ?S\<rparr>)
         \<and> classes \<lparr>classes = ?S\<rparr> ! (?codes ! j) = y ! j"
    if "j < length y" for j
    using that index_in_less [of "y ! j" ?S] by (simp add: nth_index_in)
  have 6: "\<exists>codes'. fit_transform y' = Inr (\<lparr>classes = ?S\<rparr>, codes')" if "set y' = set y" for y'
    using that by (simp add: fit_transform_eq)
  from 1 2 3 4 5 6 show ?thesis by blast
qed

text \<open>
  An instance of claim C10: the keys \<^verbatim>\<open>B_C, A_B, B_C, A_C\<close> and the keys
  \<^verbatim>\<open>A_C, B_C, A_B\<close> give the same classes \<^verbatim>\<open>A_B, A_C, B_C\<close>.
\<close>

theorem encoder_sorted_index_witness:
  "fit_transform example_routes
      = Inr (\<lparr>classes = [''A_B'', ''A_C'', ''B_C'']\<rparr>, [2, 0, 2, 1])
   \<and> fit_transform [''A_C'', ''B_C'', ''A_B'']
      = Inr (\<lparr>classes = [''A_B'', ''A_C'', ''B_C'']\<rparr>, [1, 2, 0])
   \<and> transform \<lparr>classes = [''A_B'', ''A_C'', ''B_C'']\<rparr> [''A_C''] = Inr [1]"
proof -
  let ?le = "\<lparr>classes = [''A_B'', ''A_C'', ''B_C'']\<rparr>"
  have e: "fit_transform example_routes = Inr (?le, [2, 0, 2, 1])"
    by code_simp
  have s: "set [''A_C'', ''B_C'', ''A_B''] = set example_routes"
    by (auto simp: example_routes_def)
  from encoder_sorted_index [of example_routes] e
  have i: "\<forall>i < length (classes ?le). transform ?le [classes ?le ! i] = Inr [i]"
    and y': "\<forall>y'. set y' = set example_routes \<longrightarrow> (\<exists>codes'. fit_transform y' = Inr (?le, codes'))"
    by auto
  from i have t: "transform ?le [''A_C''] = Inr [1]"
    by (auto dest: spec [of _ 1])
  from y' s have "\<exists>codes'. fit_transform [''A_C'', ''B_C'', ''A_B''] = Inr (?le, codes')"
    by blast
  moreover have "fit_transform [''A_C'', ''B_C'', ''A_B''] = Inr (?le, [1, 2, 0])"
    by code_simp
  ultimately show ?thesis using e t by simp
qed

subsection \<open>Persister: the metadata record\<close>

text \<open>
  Claim C9. The cell that prepares the features always completes, and the metadata
  record built from its matrix \<^verbatim>\<open>X\<close> and from the selected model lists exactly the
  ten feature columns \<^verbatim>\<open>hour\<close>, \<^verbatim>\<open>hour_sin\<close>, \<^verbatim>\<open>hour_cos\<close>,
  \<^verbatim>\<open>route_distance\<close>, \<^verbatim>\<open>route_avg_delay\<close>, \<^verbatim>\<open>route_std_delay\<close>,
  \<^verbatim>\<open>route_count\<close>, \<^verbatim>\<open>is_rush_hour\<close>, \<^verbatim>\<open>is_night\<close> and \<^verbatim>\<open>route\<close> in
  this order, the last of which holds the encoded route; its model type is the name of
  the selected model and its performance entry holds the three metrics of that model.
\<close>

theorem metadata_record:
  "\<exists>X y les codes.
      prepare_features df_features = Inr (X, y, les)
    \<and> frame_column X ''route'' = Inr (map (\<lambda>c. IntV (int c)) codes)
    \<and> (case select_best xgb_model rf_model xgb_results rf_results of
         (best_model, best_model_name, best_results) \<Rightarrow>
           feature_names (feature_info X best_model_name best_results)
             = [''hour'', ''hour_sin'', ''hour_cos'', ''route_distance'',
                ''route_avg_delay'', ''route_std_delay'', ''route_count'',
                ''is_rush_hour'', ''is_night'', ''route'']
         \<and> model_type (feature_info X best_model_name best_results) = best_model_name
         \<and> performance (feature_info X best_model_name best_results)
             = \<lparr>perf_rmse = rmse best_results, perf_mae = mae best_results,
                perf_r2 = r2 best_results\<rparr>
         \<and> (best_model, best_model_name, best_results)
             \<in> {(xgb_model, ''XGBoost'', xgb_results),
                 (rf_model, ''Random Forest'', rf_results)})"
proof -
  obtain X y les where p: "prepare_features df_features = Inr (X, y, les)"
    using prepare_features_eq [of df_features] by blast
  let ?S = "sorted_list_of_set (set (map route df_features))"
  have "frame_column X ''route''
          = Inr (map (\<lambda>c. IntV (int c)) (map (index_in ?S) (map route df_features)))"
    using prepare_features_route_column(1) [OF p] by (simp add: comp_def)
  moreover have "columns X = feature_columns"
    using p by (rule columns_prepare_features)
  ultimately show ?thesis
    using p
    by (intro exI [of _ X] exI [of _ y] exI [of _ les]
          exI [of _ "map (index_in ?S) (map route df_features)"])
       (simp add: select_best_def feature_info_def feature_columns_def)
qed

text \<open>
  An instance of claim C9: the scenario's departures, with Random Forest (RMSE 2)
  selected over XGBoost (RMSE 3).
\<close>

theorem metadata_record_witness:
  "\<exists>X y les.
      prepare_features (create_features scenario_departures) = Inr (X, y, les)
    \<and> feature_info X ''Random Forest'' \<lparr>predictions = [0, 4], rmse = 2, mae = 2, r2 = 0\<rparr>
        = \<lparr>feature_names = [''hour'', ''hour_sin'', ''hour_cos'', ''route_distance'',
                ''route_avg_delay'', ''route_std_delay'', ''route_count'',
                ''is_rush_hour'', ''is_night'', ''route''],
           model_type = ''Random Forest'',
           performance = \<lparr>perf_rmse = 2, perf_mae = 2, perf_r2 = 0\<rparr>\<rparr>
    \<and> select_best [1, 5 :: real] [- 7, 4]
          \<lparr>predictions = [1, 5], rmse = 3, mae = 3, r2 = - 1\<rparr>
          \<lparr>predictions = [0, 4], rmse = 2, mae = 2, r2 = 0\<rparr>
        = ([- 7, 4], ''Random Forest'', \<lparr>predictions = [0, 4], rmse = 2, mae = 2, r2 = 0\<rparr>)"
proof -
  let ?x = "\<lparr>predictions = [1, 5], rmse = 3, mae = 3, r2 = - 1\<rparr>"
  let ?r = "\<lparr>predictions = [0, 4], rmse = 2, mae = 2, r2 = 0\<rparr>"
  have s: "select_best [1, 5] [- 7, 4] ?x ?r = ([- 7, 4 :: real], ''Random Forest'', ?r)"
    by (simp add: select_best_def)
  from metadata_record [where df_features = "create_features scenario_departures"
      and xgb_model = "[1, 5 :: real]" and rf_model = "[- 7, 4]"
      and xgb_results = ?x and rf_results = ?r]
  obtain X y les where
    "prepare_features (create_features scenario_departures) = Inr (X, y, les)"
    "feature_names (feature_info X ''Random Forest'' ?r)
       = [''hour'', ''hour_sin'', ''hour_cos'', ''route_distance'',
          ''route_avg_delay'', ''route_std_delay'', ''route_count'',
          ''is_rush_hour'', ''is_night'', ''route'']"
    "model_type (feature_info X ''Random Forest'' ?r) = ''Random Forest''"
    "performance (feature_info X ''Random Forest'' ?r)
       = \<lparr>perf_rmse = 2, perf_mae = 2, perf_r2 = 0\<rparr>"
    unfolding s by auto
  then show ?thesis
    using s by (intro exI [of _ X] exI [of _ y] exI [of _ les]) (simp add: feature_info_def)
qed

subsection \<open>Sample predictions: routes without data\<close>

lemma filter_from_to_create_features:
  "filter (\<lambda>r. from_station r = a \<and> to_station r = b) (create_features df) = [] \<longleftrightarrow>
   filter (\<lambda>d. from_station d = a \<and> to_station d = b) df = []"
  by (auto simp: create_features_eq filter_empty_conv feature_row_of_def)

text \<open>
  For a route with data the function prints nothing and returns the model's prediction,
  clamped at zero, or raises what the encoder raises.
\<close>

lemma filter_create_features_example:
  "filter (\<lambda>r. from_station r = ''A'' \<and> to_station r = ''B'')
     (create_features scenario_departures) = create_features scenario_departures"
  by (simp add: create_features_eq scenario_departures_def feature_row_of_def)

lemma make_sample_prediction_example:
  "make_sample_prediction example_lib (create_features scenario_departures)
       [''route_encoder'' \<mapsto> \<lparr>classes = [''A_B'']\<rparr>] feature_columns [- 2] ''A'' ''B'' 8
     = ([], Inr (Some 0))
   \<and> make_sample_prediction example_lib (create_features scenario_departures)
       [''route_encoder'' \<mapsto> \<lparr>classes = [''A_B'']\<rparr>] feature_columns [9] ''A'' ''B'' 8
     = ([], Inr (Some 9))
   \<and> make_sample_prediction example_lib (create_features scenario_departures)
       [''route_encoder'' \<mapsto> \<lparr>classes = [''C_D'']\<rparr>] feature_columns [9] ''A'' ''B'' 8
     = ([], Inl ValueError)"
proof -
  have t: "transform \<lparr>classes = [''A_B'']\<rparr> [''A_B''] = Inr [0]"
    "transform \<lparr>classes = [''C_D'']\<rparr> [''A_B''] = Inl ValueError"
    by code_simp+
  have c: "create_features scenario_departures
      = create_features scenario_departures ! 0 # tl (create_features scenario_departures)"
    by (simp add: create_features_eq scenario_departures_def)
  have r: "route (create_features scenario_departures ! 0) = ''A_B''"
    by (simp add: nth_create_features scenario_departures_def feature_row_of_def route_key_def)
  have f: "filter (\<lambda>r. from_station r = ''A'' \<and> to_station r = ''B'')
     (create_features scenario_departures)
      = create_features scenario_departures ! 0 # tl (create_features scenario_departures)"
    using c by (simp only: filter_create_features_example)
  show ?thesis
    unfolding make_sample_prediction_def f Let_def
    by (simp add: r t feature_columns_def example_lib_def)
qed

text \<open>
  Claim C8. When no loaded departure goes from \<open>from_st\<close> to \<open>to_st\<close>,
  \<^verbatim>\<open>make_sample_prediction\<close> prints the one line "No data found for route" with the
  two stations and returns \<^verbatim>\<open>None\<close>: it raises nothing, calls no model and returns
  no number.
\<close>

theorem no_data_for_unknown_route:
  assumes "\<forall>d \<in> set df. \<not> (from_station d = from_st \<and> to_station d = to_st)"
  shows "make_sample_prediction sk (create_features df) label_encoders feat_names best_model
           from_st to_st hr
         = ([no_data_message from_st to_st], Inr None)"
proof -
  from assms have "filter (\<lambda>d. from_station d = from_st \<and> to_station d = to_st) df = []"
    by (auto simp: filter_empty_conv)
  then have "filter (\<lambda>r. from_station r = from_st \<and> to_station r = to_st)
               (create_features df) = []"
    by (simp only: filter_from_to_create_features)
  then show ?thesis
    by (simp add: make_sample_prediction_def)
qed

text \<open>
  An instance of claim C8: the scenario holds no departure from B to A.
\<close>

theorem no_data_for_unknown_route_witness:
  "make_sample_prediction example_lib (create_features scenario_departures)
       [''route_encoder'' \<mapsto> \<lparr>classes = [''A_B'']\<rparr>] feature_columns [9] ''B'' ''A'' 8
     = ([no_data_message ''B'' ''A''], Inr None)
   \<and> no_data_message ''B'' ''A''
     = [CHR 0xE2, CHR 0x9D, CHR 0x8C] @ '' No data found for route B ''
         @ [CHR 0xE2, CHR 0x86, CHR 0x92] @ '' A''"
proof -
  have "\<forall>d \<in> set scenario_departures. \<not> (from_station d = ''B'' \<and> to_station d = ''A'')"
    by (simp add: scenario_departures_def)
  from no_data_for_unknown_route [OF this] show ?thesis
    by (simp add: no_data_message_def cross_mark_def rightwards_arrow_def)
qed

end
